theory Spec2Isabelle
  imports Main "HOL-Library.Word"
begin

unbundle bit_operations_syntax

section \<open>Data model of \<^verbatim>\<open>src/common/windows/http_upload.cc\<close>\<close>

text \<open>
  The file is Windows code: \<^verbatim>\<open>wchar_t\<close> is an unsigned 16-bit code unit, \<^verbatim>\<open>wstring\<close> a
  sequence of them, \<^verbatim>\<open>string\<close> and \<^verbatim>\<open>vector<char>\<close> sequences of bytes, \<^verbatim>\<open>DWORD\<close> and
  \<^verbatim>\<open>int\<close> 32-bit values. A \<^verbatim>\<open>map<wstring, wstring>\<close> is represented by the sequence of
  its entries in iteration order (\<^verbatim>\<open>begin()\<close> to \<^verbatim>\<open>end()\<close>), which is all the code
  ever does with it.
\<close>

type_synonym wchar_t = "16 word"
type_synonym wstring = "wchar_t list"
type_synonym DWORD = "32 word"
type_synonym HINTERNET = nat

text \<open>A wide literal \<^verbatim>\<open>L"..."\<close> of ASCII characters.\<close>

definition wide :: "string \<Rightarrow> wstring" where
  "wide s = map of_char s"

text \<open>
  What a C function reads through the pointer \<^verbatim>\<open>w.c_str()\<close>: the characters before the
  first NUL.
\<close>

definition c_str :: "wstring \<Rightarrow> wstring" where
  "c_str w = takeWhile (\<lambda>c. c \<noteq> 0) w"

text \<open>The same for a byte buffer, as \<^verbatim>\<open>string result(buf)\<close> reads it.\<close>

definition string_of_buf :: "string \<Rightarrow> string" where
  "string_of_buf buf = takeWhile (\<lambda>c. c \<noteq> CHR 0x00) buf"

fun wcscmp_chars :: "wstring \<Rightarrow> wstring \<Rightarrow> int" where
  "wcscmp_chars [] [] = 0"
| "wcscmp_chars [] (b # bs) = - 1"
| "wcscmp_chars (a # as) [] = 1"
| "wcscmp_chars (a # as) (b # bs) =
     (if a < b then - 1 else if b < a then 1 else wcscmp_chars as bs)"

definition wcscmp :: "wstring \<Rightarrow> wstring \<Rightarrow> int" where
  "wcscmp a b = wcscmp_chars (c_str a) (c_str b)"

definition CRLF :: string where
  "CRLF = [CHR 0x0D, CHR 0x0A]"

record URL_COMPONENTS =
  lpszScheme :: wstring
  lpszHostName :: wstring
  lpszUrlPath :: wstring
  nPort :: "16 word"

subsection \<open>The operating system\<close>

text \<open>
  Everything the file gets from outside is a field of \<open>winapi\<close>: the WinINet calls, the
  C runtime's \<^verbatim>\<open>rand\<close>, the file system behind \<^verbatim>\<open>ifstream\<close> and the code-page conversion.
  A call that returns a handle returns \<open>None\<close> for \<^verbatim>\<open>NULL\<close>.
  \<^item> \<open>InternetCrackUrl\<close>: \<open>None\<close> when the call returns \<^verbatim>\<open>FALSE\<close>, else the components
    it wrote into the buffers.
  \<^item> \<open>HttpQueryInfo\<close>: \<open>None\<close> when the call returns \<^verbatim>\<open>FALSE\<close> (also when the status does
    not fit the 4-character buffer), else the status text written into \<^verbatim>\<open>http_status\<close>.
  \<^item> \<open>rand\<close>: the value of the \<open>n\<close>-th call made by this invocation.
  \<^item> \<open>ifstream_open\<close>: the bytes of the file of that name, \<open>None\<close> when it cannot be opened.
  \<^item> \<open>WideCharToMultiByte\<close>: for the NUL-terminated source given with length \<^verbatim>\<open>-1\<close>, the
    bytes written to the output buffer, terminating NUL included; the call's return value
    is their number, and the empty sequence stands for the failure return \<^verbatim>\<open>0\<close>.
\<close>

record winapi =
  InternetCrackUrl :: "wstring \<Rightarrow> URL_COMPONENTS option"
  InternetOpen :: "wstring \<Rightarrow> HINTERNET option"
  InternetConnect :: "HINTERNET \<Rightarrow> wstring \<Rightarrow> 16 word \<Rightarrow> HINTERNET option"
  HttpOpenRequest :: "HINTERNET \<Rightarrow> wstring \<Rightarrow> wstring \<Rightarrow> DWORD \<Rightarrow> HINTERNET option"
  HttpAddRequestHeaders :: "HINTERNET \<Rightarrow> wstring \<Rightarrow> bool"
  HttpSendRequest :: "HINTERNET \<Rightarrow> string \<Rightarrow> bool"
  HttpQueryInfo :: "HINTERNET \<Rightarrow> wstring option"
  rand :: "nat \<Rightarrow> 32 word"
  ifstream_open :: "wstring \<Rightarrow> string option"
  WideCharToMultiByte :: "wstring \<Rightarrow> string"

text \<open>
  The WinINet calls a run makes, in order, with the arguments that vary; arguments that
  are constants in the source (access type, service, \<^verbatim>\<open>NULL\<close>s, the query's info level) are
  left out.
\<close>

datatype call =
    EvInternetCrackUrl wstring
  | EvInternetOpen wstring
  | EvInternetConnect HINTERNET wstring "16 word"
  | EvHttpOpenRequest HINTERNET wstring wstring DWORD
  | EvHttpAddRequestHeaders HINTERNET wstring
  | EvHttpSendRequest HINTERNET string
  | EvHttpQueryInfo HINTERNET
  | EvInternetCloseHandle HINTERNET

definition kUserAgent :: wstring where
  "kUserAgent = wide ''Airbag/1.0 (Windows)''"

definition INTERNET_FLAG_SECURE :: DWORD where
  "INTERNET_FLAG_SECURE = 0x00800000"

section \<open>The functions of \<^verbatim>\<open>HTTPUpload\<close>\<close>

subsection \<open>\<^verbatim>\<open>CheckParameters\<close>\<close>

text \<open>The inner loop over the characters of one parameter name.\<close>

fun CheckName :: "wstring \<Rightarrow> bool" where
  "CheckName [] = True"
| "CheckName (c # cs) = (if c < 32 \<or> c = of_char (CHR 0x22) \<or> c > 127 then False else CheckName cs)"

fun CheckParameters :: "(wstring \<times> wstring) list \<Rightarrow> bool" where
  "CheckParameters [] = True"
| "CheckParameters ((str, v) # rest) =
     (if length str = 0 then False
      else if \<not> CheckName str then False
      else CheckParameters rest)"

subsection \<open>\<^verbatim>\<open>WideToUTF8\<close> and \<^verbatim>\<open>GetFileContents\<close>\<close>

definition WideToUTF8 :: "winapi \<Rightarrow> wstring \<Rightarrow> string" where
  "WideToUTF8 os wide_str =
     (if length wide_str = 0 then []
      else
        let charcount = length (WideCharToMultiByte os (c_str wide_str)) in
        if charcount = 0 then []
        else
          let buf = WideCharToMultiByte os (c_str wide_str) in
          string_of_buf buf)"

text \<open>
  The file is read whole. A file that opens with length 0 gives \<^verbatim>\<open>resize(0)\<close> and a read of
  0 bytes, so the vector is empty as it is for a file that does not open. (Lengths are
  taken to fit the \<^verbatim>\<open>int\<close> that \<^verbatim>\<open>tellg\<close> is stored in.)
\<close>

definition GetFileContents :: "winapi \<Rightarrow> wstring \<Rightarrow> string" where
  "GetFileContents os filename =
     (case ifstream_open os (c_str filename) of
        Some bytes \<Rightarrow> bytes
      | None \<Rightarrow> [])"

subsection \<open>\<^verbatim>\<open>GenerateMultipartBoundary\<close> and \<^verbatim>\<open>GenerateRequestHeader\<close>\<close>

definition hex_digit :: "nat \<Rightarrow> wchar_t" where
  "hex_digit d = (if d < 10 then of_char (CHR ''0'') + of_nat d
                  else of_char (CHR ''A'') + of_nat (d - 10))"

text \<open>The digits of \<^verbatim>\<open>%X\<close>: base 16, upper case, most significant first, no padding.\<close>

fun hex_digits :: "nat \<Rightarrow> wstring" where
  "hex_digits n = (if n < 16 then [hex_digit n] else hex_digits (n div 16) @ [hex_digit (n mod 16)])"

declare hex_digits.simps [simp del]

text \<open>\<^verbatim>\<open>%08X\<close> of an \<^verbatim>\<open>int\<close>, read as \<^verbatim>\<open>unsigned\<close>: zero-padded on the left to width 8.\<close>

definition format_08X :: "32 word \<Rightarrow> wstring" where
  "format_08X r =
     (let ds = hex_digits (unat r)
      in replicate (8 - length ds) (of_char (CHR ''0'')) @ ds)"

text \<open>
  \<^verbatim>\<open>swprintf_s\<close> writes the formatted text and its terminating NUL into a buffer of
  \<open>sizeOfBuffer\<close> characters; when they do not fit, the invalid-parameter handler
  ends the process (\<open>None\<close>).
\<close>

definition swprintf_s :: "nat \<Rightarrow> wstring \<Rightarrow> wstring option" where
  "swprintf_s sizeOfBuffer formatted =
     (if length formatted < sizeOfBuffer then Some formatted else None)"

definition kBoundaryPrefix :: wstring where
  "kBoundaryPrefix = wide ''---------------------------''"

definition kBoundaryLength :: nat where
  "kBoundaryLength = 27 + 16 + 1"

definition GenerateMultipartBoundary :: "winapi \<Rightarrow> wstring option" where
  "GenerateMultipartBoundary os =
     (let r0 = rand os 0;
          r1 = rand os 1
      in swprintf_s kBoundaryLength (kBoundaryPrefix @ format_08X r0 @ format_08X r1))"

definition GenerateRequestHeader :: "wstring \<Rightarrow> wstring" where
  "GenerateRequestHeader boundary =
     wide ''Content-Type: multipart/form-data; boundary='' @ boundary"

subsection \<open>\<^verbatim>\<open>GenerateRequestBody\<close>\<close>

text \<open>
  The loop over the parameters: each pass appends one form-data part to the request body
  built so far.
\<close>

fun append_parameters :: "winapi \<Rightarrow> string \<Rightarrow> (wstring \<times> wstring) list \<Rightarrow> string \<Rightarrow> string" where
  "append_parameters os boundary_str [] request_body = request_body"
| "append_parameters os boundary_str ((first, second) # rest) request_body =
     append_parameters os boundary_str rest
       (request_body @ (''--'' @ boundary_str @ CRLF)
          @ (''Content-Disposition: form-data; name='' @ [CHR 0x22] @
             WideToUTF8 os first @ [CHR 0x22] @ CRLF @ CRLF @
             WideToUTF8 os second @ CRLF))"

text \<open>
  \<^verbatim>\<open>request_body\<close> is an output parameter: the model takes its value at the call and
  returns, with the result, its value at the return. After \<^verbatim>\<open>request_body->clear()\<close> the loop
  starts from the empty string; \<open>body1\<close> is the output after the loop.
\<close>

definition GenerateRequestBody ::
  "winapi \<Rightarrow> (wstring \<times> wstring) list \<Rightarrow> wstring \<Rightarrow> wstring \<Rightarrow> wstring \<Rightarrow> string \<Rightarrow> bool \<times> string" where
  "GenerateRequestBody os parameters upload_file file_part_name boundary request_body =
     (let contents = GetFileContents os upload_file in
      if contents = [] then (False, request_body)
      else
        let boundary_str = WideToUTF8 os boundary in
        if boundary_str = [] then (False, request_body)
        else
          let body1 = append_parameters os boundary_str parameters [];
              filename_utf8 = WideToUTF8 os upload_file
          in
          if filename_utf8 = [] then (False, body1)
          else
            let file_part_name_utf8 = WideToUTF8 os file_part_name in
            if file_part_name_utf8 = [] then (False, body1)
            else
              (True,
               body1 @ (''--'' @ boundary_str @ CRLF)
                 @ (''Content-Disposition: form-data; '' @
                    ''name='' @ [CHR 0x22] @ file_part_name_utf8 @ [CHR 0x22] @ ''; '' @
                    ''filename='' @ [CHR 0x22] @ filename_utf8 @ [CHR 0x22] @ CRLF)
                 @ (''Content-Type: application/octet-stream'' @ CRLF)
                 @ CRLF
                 @ contents
                 @ CRLF
                 @ (''--'' @ boundary_str @ ''--'' @ CRLF)))"

subsection \<open>\<^verbatim>\<open>SendRequest\<close>\<close>

text \<open>
  The result is the sequence of WinINet calls made and the value returned; \<open>None\<close> is the
  process ended inside \<^verbatim>\<open>swprintf_s\<close>. Each \<^verbatim>\<open>AutoInternetHandle\<close> that holds a handle closes
  it at the return, the latest first.
\<close>

definition SendRequest ::
  "winapi \<Rightarrow> wstring \<Rightarrow> (wstring \<times> wstring) list \<Rightarrow> wstring \<Rightarrow> wstring \<Rightarrow> call list \<times> bool option" where
  "SendRequest os url parameters upload_file file_part_name =
     (if \<not> CheckParameters parameters then ([], Some False)
      else
        let t1 = [EvInternetCrackUrl url] in
        (case InternetCrackUrl os url of
          None \<Rightarrow> (t1, Some False)
        | Some components \<Rightarrow>
            let scheme = lpszScheme components;
                host = lpszHostName components;
                path = lpszUrlPath components
            in
            if wcscmp scheme (wide ''https'') \<noteq> 0 \<and> wcscmp scheme (wide ''http'') \<noteq> 0
            then (t1, Some False)
            else
              let secure = (wcscmp scheme (wide ''https'') = 0);
                  t2 = t1 @ [EvInternetOpen kUserAgent]
              in
              (case InternetOpen os kUserAgent of
                None \<Rightarrow> (t2, Some False)
              | Some internet \<Rightarrow>
                  let t3 = t2 @ [EvInternetConnect internet host (nPort components)] in
                  (case InternetConnect os internet host (nPort components) of
                    None \<Rightarrow> (t3 @ [EvInternetCloseHandle internet], Some False)
                  | Some connection \<Rightarrow>
                      let http_open_flags = (if secure then INTERNET_FLAG_SECURE else 0);
                          t4 = t3 @ [EvHttpOpenRequest connection (wide ''POST'') path http_open_flags]
                      in
                      (case HttpOpenRequest os connection (wide ''POST'') path http_open_flags of
                        None \<Rightarrow>
                          (t4 @ [EvInternetCloseHandle connection, EvInternetCloseHandle internet],
                           Some False)
                      | Some request \<Rightarrow>
                          (case GenerateMultipartBoundary os of
                             None \<Rightarrow> (t4, None)
                           | Some boundary \<Rightarrow>
                               let content_type_header = GenerateRequestHeader boundary;
                                   header_added =
                                     HttpAddRequestHeaders os request (c_str content_type_header);
                                   t5 = t4 @ [EvHttpAddRequestHeaders request (c_str content_type_header)];
                                   request_body =
                                     snd (GenerateRequestBody os parameters upload_file
                                            file_part_name boundary []);
                                   t6 = t5 @ [EvHttpSendRequest request request_body];
                                   closing = [EvInternetCloseHandle request,
                                              EvInternetCloseHandle connection,
                                              EvInternetCloseHandle internet]
                               in
                               if \<not> HttpSendRequest os request request_body
                               then (t6 @ closing, Some False)
                               else
                                 let t7 = t6 @ [EvHttpQueryInfo request] in
                                 (case HttpQueryInfo os request of
                                   None \<Rightarrow> (t7 @ closing, Some False)
                                 | Some http_status \<Rightarrow>
                                     (t7 @ closing,
                                      Some (wcscmp http_status (wide ''200'') = 0)))))))))"

section \<open>Reference definitions for the statements\<close>

subsection \<open>Reading a hexadecimal rendering back\<close>

definition hex_digit_value :: "wchar_t \<Rightarrow> nat" where
  "hex_digit_value c = (if c \<le> of_char (CHR ''9'') then unat c - 48 else unat c - 55)"

definition hex_value :: "wstring \<Rightarrow> nat" where
  "hex_value ds = foldl (\<lambda>a c. 16 * a + hex_digit_value c) 0 ds"

subsection \<open>One form-data part of a parameter\<close>

text \<open>The bytes one pass of the parameter loop appends, for the entry \<open>(name, val)\<close>.\<close>

definition parameter_part :: "winapi \<Rightarrow> string \<Rightarrow> wstring \<times> wstring \<Rightarrow> string" where
  "parameter_part os boundary_str entry =
     ''--'' @ boundary_str @ CRLF @
     ''Content-Disposition: form-data; name='' @ [CHR 0x22] @ WideToUTF8 os (fst entry) @ [CHR 0x22] @
     CRLF @ CRLF @ WideToUTF8 os (snd entry) @ CRLF"

subsection \<open>A concrete operating system\<close>

text \<open>
  The conversion Windows performs for code page \<^verbatim>\<open>CP_UTF8\<close> with flags \<^verbatim>\<open>0\<close>: UTF-16 code
  units to UTF-8 bytes, a surrogate pair to one four-byte sequence, an unpaired surrogate
  to U+FFFD. This is the platform's behaviour, not code of the repository; it
  instantiates the field \<open>WideCharToMultiByte\<close> in the examples.
\<close>

definition REPLACEMENT :: string where
  "REPLACEMENT = [CHR 0xEF, CHR 0xBF, CHR 0xBD]"

fun utf8_encode :: "wstring \<Rightarrow> string" where
  "utf8_encode [] = []"
| "utf8_encode (c # cs) =
     (if c < 0x80 then char_of (unat c) # utf8_encode cs
      else if c < 0x800 then
        [char_of (unat (0xC0 OR drop_bit 6 c)), char_of (unat (0x80 OR (c AND 0x3F)))]
          @ utf8_encode cs
      else if 0xD800 \<le> c \<and> c < 0xDC00 then
        (case cs of
           [] \<Rightarrow> REPLACEMENT
         | d # ds \<Rightarrow>
             if 0xDC00 \<le> d \<and> d < 0xE000 then
               (let u = 0x10000 + push_bit 10 (unat c - 0xD800) + (unat d - 0xDC00) in
                [char_of (0xF0 OR drop_bit 18 u),
                 char_of (0x80 OR (drop_bit 12 u AND 0x3F)),
                 char_of (0x80 OR (drop_bit 6 u AND 0x3F)),
                 char_of (0x80 OR (u AND 0x3F))]) @ utf8_encode ds
             else REPLACEMENT @ utf8_encode cs)
      else if 0xDC00 \<le> c \<and> c < 0xE000 then REPLACEMENT @ utf8_encode cs
      else
        [char_of (unat (0xE0 OR drop_bit 12 c)),
         char_of (unat (0x80 OR (drop_bit 6 c AND 0x3F))),
         char_of (unat (0x80 OR (c AND 0x3F)))] @ utf8_encode cs)"

definition CP_UTF8 :: "wstring \<Rightarrow> string" where
  "CP_UTF8 src = utf8_encode src @ [CHR 0x00]"

text \<open>
  A machine on which every WinINet call succeeds: it knows three URLs, holds the file
  \<^verbatim>\<open>minidump.dmp\<close> with the bytes \<^verbatim>\<open>DATA\<close> and the zero-length file \<^verbatim>\<open>empty.dmp\<close>, refuses
  to add headers, and answers every request with the given status.
\<close>

definition example_components :: "string \<Rightarrow> 16 word \<Rightarrow> URL_COMPONENTS" where
  "example_components s port =
     \<lparr> lpszScheme = wide s, lpszHostName = wide ''crash.example.com'',
       lpszUrlPath = wide ''/submit'', nPort = port \<rparr>"

definition example_os :: "wstring option \<Rightarrow> winapi" where
  "example_os status =
     \<lparr> InternetCrackUrl =
         (\<lambda>url. if url = wide ''https://crash.example.com/submit''
                 then Some (example_components ''https'' 443)
               else if url = wide ''http://crash.example.com/submit''
                 then Some (example_components ''http'' 80)
               else if url = wide ''ftp://crash.example.com/submit''
                 then Some (example_components ''ftp'' 21)
               else None),
       InternetOpen = (\<lambda>agent. Some 1),
       InternetConnect = (\<lambda>internet host port. Some 2),
       HttpOpenRequest = (\<lambda>connection verb path flags. Some 3),
       HttpAddRequestHeaders = (\<lambda>request header. False),
       HttpSendRequest = (\<lambda>request body. True),
       HttpQueryInfo = (\<lambda>request. status),
       rand = (\<lambda>n. if n = 0 then 41 else 18467),
       ifstream_open =
         (\<lambda>name. if name = wide ''minidump.dmp'' then Some ''DATA''
                else if name = wide ''empty.dmp'' then Some []
                else None),
       WideCharToMultiByte = CP_UTF8 \<rparr>"

section \<open>C strings and comparison\<close>

lemma wcscmp_chars_eq_0: "wcscmp_chars a b = 0 \<longleftrightarrow> a = b"
  by (induction a b rule: wcscmp_chars.induct) auto

lemma wcscmp_eq_0: "wcscmp a b = 0 \<longleftrightarrow> c_str a = c_str b"
  by (simp add: wcscmp_def wcscmp_chars_eq_0)

lemma c_str_literals:
  "c_str (wide ''https'') = wide ''https''"
  "c_str (wide ''http'') = wide ''http''"
  "c_str (wide ''200'') = wide ''200''"
  by (simp_all add: c_str_def wide_def)

lemma https_not_http: "wide ''https'' \<noteq> wide ''http''"
  by (simp add: wide_def)

lemma c_str_no_NUL: "0 \<notin> set w \<Longrightarrow> c_str w = w"
  by (induction w) (auto simp: c_str_def)

lemma utf8_encode_ascii:
  "\<forall>c\<in>set w. c < 0x80 \<Longrightarrow> utf8_encode w = map (\<lambda>c. char_of (unat c)) w"
  by (induction w) simp_all

lemma narrow_nonzero:
  fixes c :: wchar_t
  assumes "0 < c" and "c < 0x80"
  shows "char_of (unat c) \<noteq> CHR 0x00"
proof
  assume "char_of (unat c) = CHR 0x00"
  then have "take_bit 8 (unat c) = (of_char (CHR 0x00) :: nat)"
    by (simp only: char_of_eq_iff)
  then have "unat c mod 256 = 0"
    by (simp add: take_bit_eq_mod)
  moreover from assms have "0 < unat c" "unat c < 128"
    by (simp_all add: word_less_nat_alt)
  ultimately show False by simp
qed

lemma string_of_buf_terminated:
  "CHR 0x00 \<notin> set s \<Longrightarrow> string_of_buf (s @ [CHR 0x00]) = s"
  by (induction s) (auto simp: string_of_buf_def)

lemma WideToUTF8_ascii:
  assumes "WideCharToMultiByte os = CP_UTF8" and "w \<noteq> []"
    and "\<forall>c\<in>set w. 0 < c \<and> c < 0x80"
  shows "WideToUTF8 os w = map (\<lambda>c. char_of (unat c)) w"
proof -
  from assms(3) have "0 \<notin> set w" by auto
  then have c: "c_str w = w" by (rule c_str_no_NUL)
  from assms(3) have u: "utf8_encode w = map (\<lambda>c. char_of (unat c)) w"
    by (intro utf8_encode_ascii) simp
  have "CHR 0x00 \<notin> set (map (\<lambda>c. char_of (unat c)) w)"
  proof
    assume "CHR 0x00 \<in> set (map (\<lambda>c. char_of (unat c)) w)"
    then obtain c where "c \<in> set w" "char_of (unat c) = CHR 0x00"
      unfolding set_map by (elim imageE) (rule that, simp_all)
    with assms(3) narrow_nonzero [of c] show False by blast
  qed
  then have "string_of_buf (map (\<lambda>c. char_of (unat c)) w @ [CHR 0x00]) = map (\<lambda>c. char_of (unat c)) w"
    by (rule string_of_buf_terminated)
  with assms(1,2) c u show ?thesis
    by (simp add: WideToUTF8_def CP_UTF8_def)
qed

lemma unat_of_char: "unat (of_char c :: wchar_t) = of_char c"
proof -
  have "(of_char c :: wchar_t) = of_nat (of_char c)"
    by (simp only: of_nat_of_char)
  then have "unat (of_char c :: wchar_t) = (of_char c :: nat) mod 2 ^ 16"
    by (simp only: unat_of_nat) simp
  moreover have "(of_char c :: nat) < 256" by simp
  ultimately show ?thesis by simp
qed

lemma narrow_wide: "map (\<lambda>c. char_of (unat c)) (wide s) = s"
  by (induction s) (simp_all add: wide_def unat_of_char)

lemma WideToUTF8_literal:
  assumes "WideCharToMultiByte os = CP_UTF8" and "s \<noteq> []"
    and "\<forall>c\<in>set (wide s). 0 < c \<and> c < 0x80"
  shows "WideToUTF8 os (wide s) = s"
proof -
  from assms(2) have "wide s \<noteq> []" by (simp add: wide_def)
  with assms(1,3) have "WideToUTF8 os (wide s) = map (\<lambda>c. char_of (unat c)) (wide s)"
    by (intro WideToUTF8_ascii)
  then show ?thesis by (simp only: narrow_wide)
qed

lemma WideToUTF8_empty: "WideToUTF8 os [] = []"
  by (simp add: WideToUTF8_def)

section \<open>The multipart boundary\<close>

lemma hex_digit_cases:
  "d < 16 \<Longrightarrow> d \<in> {0, 1, 2, 3, 4, 5, 6, 7, 8, 9, 10, 11, 12, 13, 14, 15 :: nat}"
proof -
  assume "d < 16"
  then have "d \<in> set [0..<16]" by simp
  then show ?thesis by (simp add: upt_rec numeral_eq_Suc)
qed

lemma hex_digit_upper:
  "d < 16 \<Longrightarrow> hex_digit d \<in> set (wide ''0123456789ABCDEF'')"
  using hex_digit_cases [of d] by (auto simp: hex_digit_def wide_def)

lemma hex_digit_value_digit: "d < 16 \<Longrightarrow> hex_digit_value (hex_digit d) = d"
  using hex_digit_cases [of d] by (auto simp: hex_digit_def hex_digit_value_def)

lemma hex_digits_upper: "set (hex_digits n) \<subseteq> set (wide ''0123456789ABCDEF'')"
proof (induction n rule: hex_digits.induct)
  case (1 n)
  show ?case
  proof (cases "n < 16")
    case True
    then show ?thesis using hex_digit_upper [of n] by (simp add: hex_digits.simps [of n])
  next
    case False
    have "n mod 16 < 16" by simp
    then have "hex_digit (n mod 16) \<in> set (wide ''0123456789ABCDEF'')" by (rule hex_digit_upper)
    with False 1 show ?thesis by (simp add: hex_digits.simps [of n])
  qed
qed

lemma hex_digits_length: "0 < k \<Longrightarrow> n < 16 ^ k \<Longrightarrow> length (hex_digits n) \<le> k"
proof (induction n arbitrary: k rule: hex_digits.induct)
  case (1 n)
  show ?case
  proof (cases "n < 16")
    case True
    with 1(2) show ?thesis by (simp add: hex_digits.simps [of n])
  next
    case False
    with 1(3) have "1 < k" by (cases "k = 1") (use 1(2) in auto)
    then obtain j where k: "k = Suc j" "0 < j" by (cases k) auto
    with 1(3) have "n div 16 < 16 ^ j" by (simp add: less_mult_imp_div_less mult.commute)
    with 1(1) False k have "length (hex_digits (n div 16)) \<le> j" by simp
    with False k show ?thesis by (simp add: hex_digits.simps [of n])
  qed
qed

lemma hex_value_append:
  "hex_value (ds @ [c]) = 16 * hex_value ds + hex_digit_value c"
  by (simp add: hex_value_def)

lemma hex_value_digits: "hex_value (hex_digits n) = n"
proof (induction n rule: hex_digits.induct)
  case (1 n)
  show ?case
  proof (cases "n < 16")
    case True
    then show ?thesis
      by (simp add: hex_digits.simps [of n] hex_value_def hex_digit_value_digit)
  next
    case False
    with 1 show ?thesis
      by (simp add: hex_digits.simps [of n] hex_value_append hex_digit_value_digit)
  qed
qed

lemma hex_value_zeros: "hex_value (replicate k (of_char (CHR ''0'')) @ ds) = hex_value ds"
proof -
  have "foldl (\<lambda>a c. 16 * a + hex_digit_value c) 0 (replicate k (of_char (CHR ''0''))) = 0"
    by (induction k) (simp_all add: hex_digit_value_def)
  then show ?thesis by (simp add: hex_value_def)
qed

lemma format_08X_length: "length (format_08X r) = 8"
proof -
  have "unat r < 2 ^ 32" using unsigned_less [of r] by simp
  then have "unat r < 16 ^ 8" by simp
  then have "length (hex_digits (unat r)) \<le> 8" by (intro hex_digits_length) simp_all
  then show ?thesis by (simp add: format_08X_def Let_def)
qed

lemma format_08X_upper: "set (format_08X r) \<subseteq> set (wide ''0123456789ABCDEF'')"
proof -
  have "of_char (CHR ''0'') \<in> set (wide ''0123456789ABCDEF'')" by (simp add: wide_def)
  then show ?thesis using hex_digits_upper [of "unat r"]
    by (auto simp: format_08X_def Let_def simp del: set_replicate)
qed

lemma format_08X_value: "hex_value (format_08X r) = unat r"
  by (simp only: format_08X_def Let_def hex_value_zeros hex_value_digits)

lemma kBoundaryPrefix_dashes: "kBoundaryPrefix = replicate 27 (of_char (CHR ''-''))"
  by (simp add: kBoundaryPrefix_def wide_def numeral_eq_Suc)

lemma GenerateMultipartBoundary_eq:
  "GenerateMultipartBoundary os =
     Some (kBoundaryPrefix @ format_08X (rand os 0) @ format_08X (rand os 1))"
  by (simp add: GenerateMultipartBoundary_def swprintf_s_def kBoundaryLength_def
      kBoundaryPrefix_dashes format_08X_length)

section \<open>Facts about the concrete operating system\<close>

lemma example_os_fields:
  "WideCharToMultiByte (example_os s) = CP_UTF8"
  "InternetOpen (example_os s) agent = Some 1"
  "InternetConnect (example_os s) i h p = Some 2"
  "HttpOpenRequest (example_os s) c v pa fl = Some 3"
  "HttpAddRequestHeaders (example_os s) r header = False"
  "HttpSendRequest (example_os s) r b = True"
  "HttpQueryInfo (example_os s) r = s"
  by (simp_all add: example_os_def)

lemma example_os_urls:
  "InternetCrackUrl (example_os s) (wide ''https://crash.example.com/submit'') =
     Some (example_components ''https'' 443)"
  "InternetCrackUrl (example_os s) (wide ''http://crash.example.com/submit'') =
     Some (example_components ''http'' 80)"
  "InternetCrackUrl (example_os s) (wide ''ftp://crash.example.com/submit'') =
     Some (example_components ''ftp'' 21)"
  "InternetCrackUrl (example_os s) (wide ''crash.example.com'') = None"
  by (simp_all add: example_os_def wide_def)

lemma example_os_files:
  "GetFileContents (example_os s) (wide ''minidump.dmp'') = ''DATA''"
  "GetFileContents (example_os s) (wide ''empty.dmp'') = []"
  "GetFileContents (example_os s) (wide ''missing.dmp'') = []"
  by (simp_all add: GetFileContents_def example_os_def c_str_def wide_def)

lemma example_os_utf8:
  "WideToUTF8 (example_os s) (wide ''minidump.dmp'') = ''minidump.dmp''"
  "WideToUTF8 (example_os s) (wide ''missing.dmp'') = ''missing.dmp''"
  "WideToUTF8 (example_os s) (wide ''upload_file_minidump'') = ''upload_file_minidump''"
  "WideToUTF8 (example_os s) (wide ''B'') = ''B''"
  "WideToUTF8 (example_os s) (wide ''foo'') = ''foo''"
  "WideToUTF8 (example_os s) (wide ''bar'') = ''bar''"
  by (rule WideToUTF8_literal, simp add: example_os_fields, simp, simp add: wide_def)+

lemma example_scheme:
  "c_str (lpszScheme (example_components ''https'' p)) = wide ''https''"
  "c_str (lpszScheme (example_components ''http'' p)) = wide ''http''"
  "c_str (lpszScheme (example_components ''ftp'' p)) = wide ''ftp''"
  by (simp_all add: example_components_def c_str_def wide_def)

lemma rand_example: "rand (example_os s) 0 = 41" "rand (example_os s) (Suc 0) = 18467"
  by (simp_all add: example_os_def)

lemma replicate_zeros:
  "replicate 6 (x :: wchar_t) = [x, x, x, x, x, x]" "replicate 4 (x :: wchar_t) = [x, x, x, x]"
  by (simp_all add: eval_nat_numeral)

lemma hex_digits_41: "hex_digits 41 = wide ''29''"
  by (simp add: hex_digits.simps [of 41] hex_digits.simps [of 2] hex_digit_def wide_def)

lemma hex_digits_18467: "hex_digits 18467 = wide ''4823''"
  by (simp add: hex_digits.simps [of 18467] hex_digits.simps [of 1154]
     hex_digits.simps [of 72] hex_digits.simps [of 4] hex_digit_def wide_def)

lemma format_08X_41: "format_08X 41 = wide ''00000029''"
  by (simp add: format_08X_def hex_digits_41 replicate_zeros wide_def)

lemma format_08X_18467: "format_08X 18467 = wide ''00004823''"
  by (simp add: format_08X_def hex_digits_18467 replicate_zeros wide_def)

lemma GenerateMultipartBoundary_example:
  "GenerateMultipartBoundary (example_os s) = Some (wide ''---------------------------0000002900004823'')"
  by (simp add: GenerateMultipartBoundary_eq rand_example format_08X_41 format_08X_18467 kBoundaryPrefix_def wide_def)

section \<open>The request body\<close>

lemma append_parameters_eq:
  "append_parameters os b ps acc = acc @ concat (map (parameter_part os b) ps)"
  by (induction os b ps acc rule: append_parameters.induct) (simp_all add: parameter_part_def)

lemma GenerateRequestBody_no_contents:
  "GetFileContents os f = [] \<Longrightarrow> GenerateRequestBody os ps f n b old_body = (False, old_body)"
  by (simp add: GenerateRequestBody_def)

lemma GenerateRequestBody_no_boundary:
  "WideToUTF8 os b = [] \<Longrightarrow> GenerateRequestBody os ps f n b old_body = (False, old_body)"
  by (simp add: GenerateRequestBody_def Let_def)

lemma GenerateRequestBody_no_names:
  "GetFileContents os f \<noteq> [] \<Longrightarrow> WideToUTF8 os b \<noteq> [] \<Longrightarrow>
   WideToUTF8 os f = [] \<or> WideToUTF8 os n = [] \<Longrightarrow>
   GenerateRequestBody os ps f n b old_body =
     (False, concat (map (parameter_part os (WideToUTF8 os b)) ps))"
  by (auto simp: GenerateRequestBody_def Let_def append_parameters_eq)

lemma GenerateRequestBody_success:
  "GetFileContents os f \<noteq> [] \<Longrightarrow> WideToUTF8 os b \<noteq> [] \<Longrightarrow>
   WideToUTF8 os f \<noteq> [] \<Longrightarrow> WideToUTF8 os n \<noteq> [] \<Longrightarrow>
   GenerateRequestBody os ps f n b old_body =
     (True,
      concat (map (parameter_part os (WideToUTF8 os b)) ps) @
      ''--'' @ WideToUTF8 os b @ CRLF @
      ''Content-Disposition: form-data; name='' @ [CHR 0x22] @ WideToUTF8 os n @ [CHR 0x22] @
      ''; filename='' @ [CHR 0x22] @ WideToUTF8 os f @ [CHR 0x22] @ CRLF @
      ''Content-Type: application/octet-stream'' @ CRLF @ CRLF @
      GetFileContents os f @ CRLF @
      ''--'' @ WideToUTF8 os b @ ''--'' @ CRLF)"
  by (simp add: GenerateRequestBody_def Let_def append_parameters_eq)

section \<open>The call sequence of \<^verbatim>\<open>SendRequest\<close>\<close>

lemma SendRequest_rejected:
  "\<not> CheckParameters ps \<Longrightarrow> SendRequest os url ps f n = ([], Some False)"
  by (simp add: SendRequest_def)

lemma SendRequest_opened:
  assumes "CheckParameters ps"
    and "InternetCrackUrl os url = Some comps"
    and "c_str (lpszScheme comps) = wide ''https'' \<or> c_str (lpszScheme comps) = wide ''http''"
    and "InternetOpen os kUserAgent = Some internet"
    and "InternetConnect os internet (lpszHostName comps) (nPort comps) = Some connection"
    and "HttpOpenRequest os connection (wide ''POST'') (lpszUrlPath comps)
           (if c_str (lpszScheme comps) = wide ''https'' then INTERNET_FLAG_SECURE else 0) = Some request"
    and "GenerateMultipartBoundary os = Some boundary"
    and "snd (GenerateRequestBody os ps f n boundary []) = body"
  shows "SendRequest os url ps f n =
     ([EvInternetCrackUrl url,
       EvInternetOpen kUserAgent,
       EvInternetConnect internet (lpszHostName comps) (nPort comps),
       EvHttpOpenRequest connection (wide ''POST'') (lpszUrlPath comps)
         (if c_str (lpszScheme comps) = wide ''https'' then INTERNET_FLAG_SECURE else 0),
       EvHttpAddRequestHeaders request (c_str (GenerateRequestHeader boundary)),
       EvHttpSendRequest request body]
      @ (if HttpSendRequest os request body then [EvHttpQueryInfo request] else [])
      @ [EvInternetCloseHandle request, EvInternetCloseHandle connection,
         EvInternetCloseHandle internet],
      Some (HttpSendRequest os request body \<and>
            (\<exists>status. HttpQueryInfo os request = Some status \<and> c_str status = wide ''200'')))"
  using assms unfolding SendRequest_def Let_def
  by (auto split: option.splits simp: wcscmp_eq_0 c_str_literals https_not_http)

lemma WideToUTF8_header_update [simp]:
  "WideToUTF8 (os\<lparr>HttpAddRequestHeaders := a\<rparr>) w = WideToUTF8 os w"
  by (simp add: WideToUTF8_def)

lemma append_parameters_header_update [simp]:
  "append_parameters (os\<lparr>HttpAddRequestHeaders := a\<rparr>) b ps acc = append_parameters os b ps acc"
  by (induction os b ps acc rule: append_parameters.induct) simp_all

lemma GenerateRequestBody_header_update [simp]:
  "GenerateRequestBody (os\<lparr>HttpAddRequestHeaders := a\<rparr>) ps f n b old_body =
   GenerateRequestBody os ps f n b old_body"
  by (simp add: GenerateRequestBody_def GetFileContents_def Let_def)

lemma GenerateMultipartBoundary_header_update [simp]:
  "GenerateMultipartBoundary (os\<lparr>HttpAddRequestHeaders := a\<rparr>) = GenerateMultipartBoundary os"
  by (simp add: GenerateMultipartBoundary_def)

lemma example_parameters: "CheckParameters [(wide ''foo'', wide ''bar'')]"
  by (simp add: wide_def)

lemma example_components_fields:
  "lpszHostName (example_components sch p) = wide ''crash.example.com''"
  "lpszUrlPath (example_components sch p) = wide ''/submit''"
  "nPort (example_components sch p) = p"
  by (simp_all add: example_components_def)

text \<open>A whole run on the concrete system, over \<^verbatim>\<open>https\<close> and over \<^verbatim>\<open>http\<close>.\<close>

lemma SendRequest_example_https:
  assumes "CheckParameters ps"
    and "snd (GenerateRequestBody (example_os s) ps f n
           (wide ''---------------------------0000002900004823'') []) = body"
  shows "SendRequest (example_os s) (wide ''https://crash.example.com/submit'') ps f n =
     ([EvInternetCrackUrl (wide ''https://crash.example.com/submit''),
       EvInternetOpen kUserAgent,
       EvInternetConnect 1 (wide ''crash.example.com'') 443,
       EvHttpOpenRequest 2 (wide ''POST'') (wide ''/submit'') INTERNET_FLAG_SECURE,
       EvHttpAddRequestHeaders 3
         (c_str (GenerateRequestHeader (wide ''---------------------------0000002900004823''))),
       EvHttpSendRequest 3 body,
       EvHttpQueryInfo 3,
       EvInternetCloseHandle 3, EvInternetCloseHandle 2, EvInternetCloseHandle 1],
      Some (\<exists>status. s = Some status \<and> c_str status = wide ''200''))"
  using SendRequest_opened [OF assms(1) example_os_urls(1) _ example_os_fields(2)
      example_os_fields(3) example_os_fields(4) GenerateMultipartBoundary_example assms(2)]
  by (simp add: example_scheme example_components_fields example_os_fields)

lemma SendRequest_example_http:
  assumes "CheckParameters ps"
    and "snd (GenerateRequestBody (example_os s) ps f n
           (wide ''---------------------------0000002900004823'') []) = body"
  shows "SendRequest (example_os s) (wide ''http://crash.example.com/submit'') ps f n =
     ([EvInternetCrackUrl (wide ''http://crash.example.com/submit''),
       EvInternetOpen kUserAgent,
       EvInternetConnect 1 (wide ''crash.example.com'') 80,
       EvHttpOpenRequest 2 (wide ''POST'') (wide ''/submit'') 0,
       EvHttpAddRequestHeaders 3
         (c_str (GenerateRequestHeader (wide ''---------------------------0000002900004823''))),
       EvHttpSendRequest 3 body,
       EvHttpQueryInfo 3,
       EvInternetCloseHandle 3, EvInternetCloseHandle 2, EvInternetCloseHandle 1],
      Some (\<exists>status. s = Some status \<and> c_str status = wide ''200''))"
  using SendRequest_opened [OF assms(1) example_os_urls(2) _ example_os_fields(2)
      example_os_fields(3) example_os_fields(4) GenerateMultipartBoundary_example assms(2)]
  by (simp add: example_scheme example_components_fields example_os_fields https_not_http [symmetric])

section \<open>A body that cannot be built\<close>

lemma example_header:
  "c_str (GenerateRequestHeader (wide ''---------------------------0000002900004823'')) =
   wide ''Content-Type: multipart/form-data; boundary=---------------------------0000002900004823''"
  by (simp add: GenerateRequestHeader_def c_str_def wide_def)

text \<open>
  Claim C1: whenever building the body fails (the file is unreadable or has length zero,
  or the boundary, the file path or the part name encodes to the empty string), the
  upload returns false and the request is not sent. \<^verbatim>\<open>SendRequest\<close> does not do that: it
  drops the value \<^verbatim>\<open>GenerateRequestBody\<close> returns. On the concrete system the file
  \<^verbatim>\<open>missing.dmp\<close> cannot be read and \<^verbatim>\<open>GenerateRequestBody\<close> returns false; the run below is
  what \<^verbatim>\<open>SendRequest\<close> then does: the request is sent with the empty body on the handles
  opened before, and the upload returns true on the status \<^verbatim>\<open>200\<close>.
\<close>

theorem SendRequest_body_failure_ignored:
  "fst (GenerateRequestBody (example_os (Some (wide ''200''))) [(wide ''foo'', wide ''bar'')]
          (wide ''missing.dmp'') (wide ''upload_file_minidump'')
          (wide ''---------------------------0000002900004823'') []) = False
   \<and> SendRequest (example_os (Some (wide ''200''))) (wide ''https://crash.example.com/submit'')
        [(wide ''foo'', wide ''bar'')] (wide ''missing.dmp'') (wide ''upload_file_minidump'') =
       ([EvInternetCrackUrl (wide ''https://crash.example.com/submit''),
         EvInternetOpen (wide ''Airbag/1.0 (Windows)''),
         EvInternetConnect 1 (wide ''crash.example.com'') 443,
         EvHttpOpenRequest 2 (wide ''POST'') (wide ''/submit'') 0x00800000,
         EvHttpAddRequestHeaders 3
           (wide ''Content-Type: multipart/form-data; boundary=---------------------------0000002900004823''),
         EvHttpSendRequest 3 [],
         EvHttpQueryInfo 3,
         EvInternetCloseHandle 3, EvInternetCloseHandle 2, EvInternetCloseHandle 1],
        Some True)"
proof -
  have body: "GenerateRequestBody (example_os (Some (wide ''200''))) [(wide ''foo'', wide ''bar'')]
          (wide ''missing.dmp'') (wide ''upload_file_minidump'')
          (wide ''---------------------------0000002900004823'') [] = (False, [])"
    by (simp add: GenerateRequestBody_no_contents example_os_files)
  then have "snd (GenerateRequestBody (example_os (Some (wide ''200''))) [(wide ''foo'', wide ''bar'')]
          (wide ''missing.dmp'') (wide ''upload_file_minidump'')
          (wide ''---------------------------0000002900004823'') []) = []"
    by simp
  from SendRequest_example_https [OF example_parameters this] body
  show ?thesis
    by (simp add: example_header c_str_literals kUserAgent_def INTERNET_FLAG_SECURE_def)
qed

section \<open>Parameter validation\<close>

lemma CheckName_iff:
  "CheckName s \<longleftrightarrow> (\<forall>c\<in>set s. 32 \<le> unat c \<and> unat c \<le> 127 \<and> c \<noteq> 34)"
  by (induction s) (auto simp: word_less_nat_alt word_le_nat_alt not_less)

lemma CheckParameters_iff:
  "CheckParameters ps \<longleftrightarrow> (\<forall>(k, v)\<in>set ps. k \<noteq> [] \<and> CheckName k)"
  by (induction ps rule: CheckParameters.induct) auto

lemma CheckParameters_keys:
  "map fst ps = map fst qs \<Longrightarrow> CheckParameters ps = CheckParameters qs"
proof -
  have "CheckParameters ps \<longleftrightarrow> (\<forall>k\<in>set (map fst ps). k \<noteq> [] \<and> CheckName k)" for ps
    by (force simp: CheckParameters_iff)
  then show "map fst ps = map fst qs \<Longrightarrow> CheckParameters ps = CheckParameters qs"
    by metis
qed

text \<open>
  Claim C2. \<^verbatim>\<open>CheckParameters\<close> returns true exactly when every key of the parameter map is
  non-empty and each of its characters has a code in 32..127 and is not the double quote.
  The values are never looked at: two maps with the same keys in the same order get the
  same answer. The loop stops at the first violating key: whatever follows it, the answer
  is false.
\<close>

theorem CheckParameters_spec:
  "(CheckParameters ps \<longleftrightarrow>
      (\<forall>(k, v)\<in>set ps. k \<noteq> [] \<and>
         (\<forall>c\<in>set k. 32 \<le> unat c \<and> unat c \<le> 127 \<and> c \<noteq> of_char (CHR 0x22))))
   \<and> (map fst ps = map fst qs \<longrightarrow> CheckParameters qs = CheckParameters ps)
   \<and> (k = [] \<or> (\<exists>c\<in>set k. unat c < 32 \<or> 127 < unat c \<or> c = of_char (CHR 0x22))
        \<longrightarrow> CheckParameters (pre @ (k, v) # rest) = False)"
proof (intro conjI impI)
  show "CheckParameters ps \<longleftrightarrow>
      (\<forall>(k, v)\<in>set ps. k \<noteq> [] \<and>
         (\<forall>c\<in>set k. 32 \<le> unat c \<and> unat c \<le> 127 \<and> c \<noteq> of_char (CHR 0x22)))"
    by (simp add: CheckParameters_iff CheckName_iff)
next
  assume "map fst ps = map fst qs"
  then show "CheckParameters qs = CheckParameters ps"
    using CheckParameters_keys by metis
next
  assume bad: "k = [] \<or> (\<exists>c\<in>set k. unat c < 32 \<or> 127 < unat c \<or> c = of_char (CHR 0x22))"
  then have "\<not> (k \<noteq> [] \<and> CheckName k)"
    unfolding CheckName_iff by (fastforce simp: not_le)
  then show "CheckParameters (pre @ (k, v) # rest) = False"
    by (auto simp: CheckParameters_iff)
qed

theorem CheckParameters_spec_witness:
  "CheckParameters [(wide ''foo'', wide ''bar'')] = True
   \<and> CheckParameters [(wide ''foo'', wide ''baz''), (wide ''q'', [])] =
       CheckParameters [(wide ''foo'', wide ''bar''), (wide ''q'', [0])]
   \<and> CheckParameters ([(wide ''ok'', [])] @ (wide [CHR ''b'', CHR 0x22, CHR ''d''], [1]) # [([], [])]) = False"
  using CheckParameters_spec [of "[(wide ''foo'', wide ''bar'')]" "[]" "[]" "[]" "[]" "[]"]
    CheckParameters_spec [of "[(wide ''foo'', wide ''bar''), (wide ''q'', [0])]"
      "[(wide ''foo'', wide ''baz''), (wide ''q'', [])]" "[]" "[]" "[]" "[]"]
    CheckParameters_spec [of "[]" "[]" "wide [CHR ''b'', CHR 0x22, CHR ''d'']"
      "[(wide ''ok'', [])]" "[1]" "[([], [])]"]
  by (simp add: wide_def)

section \<open>Invalid parameter names\<close>

text \<open>
  Claim C3. When some key of the parameter map is empty, or holds a character outside
  32..127 or the double quote, \<^verbatim>\<open>SendRequest\<close> returns false and makes no WinINet call at
  all: nothing is parsed, opened, sent, queried or closed.
\<close>

theorem SendRequest_invalid_parameters:
  "\<exists>(k, v)\<in>set ps. k = [] \<or> (\<exists>c\<in>set k. unat c < 32 \<or> 127 < unat c \<or> c = of_char (CHR 0x22))
   \<Longrightarrow> SendRequest os url ps upload_file file_part_name = ([], Some False)"
proof -
  assume "\<exists>(k, v)\<in>set ps. k = [] \<or> (\<exists>c\<in>set k. unat c < 32 \<or> 127 < unat c \<or> c = of_char (CHR 0x22))"
  then have "\<not> CheckParameters ps"
    unfolding CheckParameters_iff CheckName_iff by (fastforce simp: not_le)
  then show ?thesis by (rule SendRequest_rejected)
qed

theorem SendRequest_invalid_parameters_witness:
  "SendRequest (example_os (Some (wide ''200''))) (wide ''https://crash.example.com/submit'')
     [(wide ''ok'', wide ''1''), (wide [CHR ''a'', CHR 0x22], wide ''2'')]
     (wide ''minidump.dmp'') (wide ''upload_file_minidump'') = ([], Some False)
   \<and> SendRequest (example_os (Some (wide ''200''))) (wide ''https://crash.example.com/submit'')
     [([], wide ''1'')] (wide ''minidump.dmp'') (wide ''upload_file_minidump'') = ([], Some False)"
  using SendRequest_invalid_parameters [of "[(wide ''ok'', wide ''1''), (wide [CHR ''a'', CHR 0x22], wide ''2'')]"
      "example_os (Some (wide ''200''))" "wide ''https://crash.example.com/submit''"
      "wide ''minidump.dmp''" "wide ''upload_file_minidump''"]
    SendRequest_invalid_parameters [of "[([], wide ''1'')]"
      "example_os (Some (wide ''200''))" "wide ''https://crash.example.com/submit''"
      "wide ''minidump.dmp''" "wide ''upload_file_minidump''"]
  by (simp add: wide_def)

section \<open>The body of the documented example\<close>

text \<open>
  Claim C4. On a system that converts to UTF-8, with the parameters \<^verbatim>\<open>{"foo": "bar"}\<close>, a
  file whose contents are the bytes \<^verbatim>\<open>DATA\<close>, the part name \<^verbatim>\<open>upload_file_minidump\<close> and the
  boundary \<^verbatim>\<open>B\<close>, \<^verbatim>\<open>GenerateRequestBody\<close> succeeds, and the body it leaves in its output is
  exactly: the part of the parameter, the octet-stream part of the file with the file's
  path (non-empty, ASCII, as given) as \<^verbatim>\<open>filename\<close>, and the closing delimiter.
\<close>

theorem GenerateRequestBody_example:
  assumes "WideCharToMultiByte os = CP_UTF8"
    and "GetFileContents os path = ''DATA''"
    and "path \<noteq> []" and "\<forall>c\<in>set path. 0 < c \<and> c < 0x80"
  shows \<open>GenerateRequestBody os [(wide ''foo'', wide ''bar'')] path
           (wide ''upload_file_minidump'') (wide ''B'') old_body =
         (True,
          ''--B'' @ CRLF @
          ''Content-Disposition: form-data; name="foo"'' @ CRLF @ CRLF @
          ''bar'' @ CRLF @
          ''--B'' @ CRLF @
          ''Content-Disposition: form-data; name="upload_file_minidump"; filename="'' @
            map (\<lambda>c. char_of (unat c)) path @ ''"'' @ CRLF @
          ''Content-Type: application/octet-stream'' @ CRLF @ CRLF @
          ''DATA'' @ CRLF @
          ''--B--'' @ CRLF)\<close>
proof -
  have lit: "WideToUTF8 os (wide ''foo'') = ''foo''" "WideToUTF8 os (wide ''bar'') = ''bar''"
    "WideToUTF8 os (wide ''upload_file_minidump'') = ''upload_file_minidump''"
    "WideToUTF8 os (wide ''B'') = ''B''"
    by (rule WideToUTF8_literal, rule assms(1), simp, simp add: wide_def)+
  have p: "WideToUTF8 os path = map (\<lambda>c. char_of (unat c)) path"
    using assms(1,3,4) by (rule WideToUTF8_ascii)
  with assms(3) have "WideToUTF8 os path \<noteq> []" by simp
  with assms(2) lit p show ?thesis
    by (simp add: GenerateRequestBody_def Let_def)
qed

theorem GenerateRequestBody_example_witness:
  \<open>GenerateRequestBody (example_os None) [(wide ''foo'', wide ''bar'')] (wide ''minidump.dmp'')
     (wide ''upload_file_minidump'') (wide ''B'') ''stale'' =
   (True,
    ''--B'' @ CRLF @
    ''Content-Disposition: form-data; name="foo"'' @ CRLF @ CRLF @
    ''bar'' @ CRLF @
    ''--B'' @ CRLF @
    ''Content-Disposition: form-data; name="upload_file_minidump"; filename="minidump.dmp"'' @ CRLF @
    ''Content-Type: application/octet-stream'' @ CRLF @ CRLF @
    ''DATA'' @ CRLF @
    ''--B--'' @ CRLF)\<close>
proof -
  have "wide ''minidump.dmp'' \<noteq> []" "\<forall>c\<in>set (wide ''minidump.dmp''). 0 < c \<and> c < 0x80"
    by (simp_all add: wide_def)
  from GenerateRequestBody_example [OF example_os_fields(1) example_os_files(1) this, of None "''stale''"]
  show ?thesis
    by (simp only: narrow_wide) simp
qed

section \<open>The status of the response\<close>

text \<open>
  Claim C5. Once the request has been sent (\<^verbatim>\<open>HttpSendRequest\<close> was called and succeeded),
  \<^verbatim>\<open>SendRequest\<close> returns true exactly when \<^verbatim>\<open>HttpQueryInfo\<close> succeeds and the status text it
  reports is \<^verbatim>\<open>200\<close>; with any other status, or when the query fails, it returns false.
\<close>

theorem SendRequest_status_gating:
  "SendRequest os url ps f n = (trace, result) \<Longrightarrow>
   EvHttpSendRequest request body \<in> set trace \<Longrightarrow>
   HttpSendRequest os request body \<Longrightarrow>
   result = Some (\<exists>status. HttpQueryInfo os request = Some status \<and> c_str status = wide ''200'')"
  unfolding SendRequest_def Let_def
  by (auto split: if_splits option.splits simp: wcscmp_eq_0 c_str_literals)

theorem SendRequest_status_gating_witness:
  "snd (SendRequest (example_os (Some (wide ''200''))) (wide ''https://crash.example.com/submit'')
          [(wide ''foo'', wide ''bar'')] (wide ''minidump.dmp'') (wide ''upload_file_minidump''))
     = Some True
   \<and> snd (SendRequest (example_os (Some (wide ''404''))) (wide ''https://crash.example.com/submit'')
          [(wide ''foo'', wide ''bar'')] (wide ''minidump.dmp'') (wide ''upload_file_minidump''))
     = Some False
   \<and> snd (SendRequest (example_os None) (wide ''https://crash.example.com/submit'')
          [(wide ''foo'', wide ''bar'')] (wide ''minidump.dmp'') (wide ''upload_file_minidump''))
     = Some False"
proof -
  have sent: "EvHttpSendRequest 3
      (snd (GenerateRequestBody (example_os s) [(wide ''foo'', wide ''bar'')] (wide ''minidump.dmp'')
             (wide ''upload_file_minidump'') (wide ''---------------------------0000002900004823'') []))
    \<in> set (fst (SendRequest (example_os s) (wide ''https://crash.example.com/submit'')
          [(wide ''foo'', wide ''bar'')] (wide ''minidump.dmp'') (wide ''upload_file_minidump'')))" for s
    by (simp add: SendRequest_example_https [OF example_parameters refl])
  have gate: "snd (SendRequest (example_os s) (wide ''https://crash.example.com/submit'')
          [(wide ''foo'', wide ''bar'')] (wide ''minidump.dmp'') (wide ''upload_file_minidump''))
     = Some (\<exists>status. s = Some status \<and> c_str status = wide ''200'')" for s
    using SendRequest_status_gating [OF prod.collapse [symmetric] sent [of s]]
    by (simp add: example_os_fields)
  have "c_str (wide ''404'') \<noteq> wide ''200''"
    by (simp add: c_str_def wide_def)
  with gate [of "Some (wide ''200'')"] gate [of "Some (wide ''404'')"] gate [of None]
  show ?thesis
    by (simp add: c_str_literals)
qed

section \<open>URL and scheme\<close>

text \<open>
  Claim C6. For every URL: when \<^verbatim>\<open>InternetCrackUrl\<close> fails, \<^verbatim>\<open>SendRequest\<close> returns false;
  when the scheme it reports is neither \<^verbatim>\<open>http\<close> nor \<^verbatim>\<open>https\<close>, \<^verbatim>\<open>SendRequest\<close> returns
  false; every request the call opens carries exactly \<^verbatim>\<open>INTERNET_FLAG_SECURE\<close> (a non-zero
  flag) when the scheme is \<^verbatim>\<open>https\<close> and no flag at all when it is \<^verbatim>\<open>http\<close>; and the request
  is indeed opened, with that flag, once the parameters are valid and the session and
  the connection have been opened.
\<close>

theorem SendRequest_url_scheme:
  "(InternetCrackUrl os url = None \<longrightarrow> snd (SendRequest os url ps f n) = Some False)
   \<and> (InternetCrackUrl os url = Some comps
        \<and> c_str (lpszScheme comps) \<noteq> wide ''http'' \<and> c_str (lpszScheme comps) \<noteq> wide ''https''
      \<longrightarrow> snd (SendRequest os url ps f n) = Some False)
   \<and> (InternetCrackUrl os url = Some comps
        \<and> EvHttpOpenRequest connection verb path flags \<in> set (fst (SendRequest os url ps f n))
      \<longrightarrow> (c_str (lpszScheme comps) = wide ''https'' \<longrightarrow> flags = INTERNET_FLAG_SECURE)
          \<and> (c_str (lpszScheme comps) = wide ''http'' \<longrightarrow> flags = 0))
   \<and> (CheckParameters ps \<and> InternetCrackUrl os url = Some comps
        \<and> (c_str (lpszScheme comps) = wide ''https'' \<or> c_str (lpszScheme comps) = wide ''http'')
        \<and> InternetOpen os kUserAgent = Some internet
        \<and> InternetConnect os internet (lpszHostName comps) (nPort comps) = Some conn
      \<longrightarrow> EvHttpOpenRequest conn (wide ''POST'') (lpszUrlPath comps)
            (if c_str (lpszScheme comps) = wide ''https'' then INTERNET_FLAG_SECURE else 0)
          \<in> set (fst (SendRequest os url ps f n)))
   \<and> INTERNET_FLAG_SECURE \<noteq> 0"
proof (intro conjI impI; (elim conjE)?)
  assume "InternetCrackUrl os url = None"
  then show "snd (SendRequest os url ps f n) = Some False"
    by (simp add: SendRequest_def)
next
  assume "InternetCrackUrl os url = Some comps"
    "c_str (lpszScheme comps) \<noteq> wide ''http''" "c_str (lpszScheme comps) \<noteq> wide ''https''"
  then show "snd (SendRequest os url ps f n) = Some False"
    by (simp add: SendRequest_def wcscmp_eq_0 c_str_literals)
next
  assume "InternetCrackUrl os url = Some comps"
    "EvHttpOpenRequest connection verb path flags \<in> set (fst (SendRequest os url ps f n))"
    "c_str (lpszScheme comps) = wide ''https''"
  then show "flags = INTERNET_FLAG_SECURE"
    unfolding SendRequest_def Let_def
    by (auto split: if_splits option.splits simp: wcscmp_eq_0 c_str_literals)
next
  assume "InternetCrackUrl os url = Some comps"
    "EvHttpOpenRequest connection verb path flags \<in> set (fst (SendRequest os url ps f n))"
    "c_str (lpszScheme comps) = wide ''http''"
  then show "flags = 0"
    unfolding SendRequest_def Let_def
    by (auto split: if_splits option.splits simp: wcscmp_eq_0 c_str_literals https_not_http [symmetric])
next
  assume "CheckParameters ps" "InternetCrackUrl os url = Some comps"
    "c_str (lpszScheme comps) = wide ''https'' \<or> c_str (lpszScheme comps) = wide ''http''"
    "InternetOpen os kUserAgent = Some internet"
    "InternetConnect os internet (lpszHostName comps) (nPort comps) = Some conn"
  then show "EvHttpOpenRequest conn (wide ''POST'') (lpszUrlPath comps)
            (if c_str (lpszScheme comps) = wide ''https'' then INTERNET_FLAG_SECURE else 0)
          \<in> set (fst (SendRequest os url ps f n))"
    unfolding SendRequest_def Let_def
    by (auto split: option.splits simp: wcscmp_eq_0 c_str_literals https_not_http)
next
  show "INTERNET_FLAG_SECURE \<noteq> 0"
    by (simp add: INTERNET_FLAG_SECURE_def)
qed

theorem SendRequest_url_scheme_witness:
  "snd (SendRequest (example_os (Some (wide ''200''))) (wide ''crash.example.com'')
          [(wide ''foo'', wide ''bar'')] (wide ''minidump.dmp'') (wide ''upload_file_minidump''))
     = Some False
   \<and> snd (SendRequest (example_os (Some (wide ''200''))) (wide ''ftp://crash.example.com/submit'')
          [(wide ''foo'', wide ''bar'')] (wide ''minidump.dmp'') (wide ''upload_file_minidump''))
     = Some False
   \<and> EvHttpOpenRequest 2 (wide ''POST'') (wide ''/submit'') INTERNET_FLAG_SECURE
       \<in> set (fst (SendRequest (example_os (Some (wide ''200'')))
            (wide ''https://crash.example.com/submit'')
            [(wide ''foo'', wide ''bar'')] (wide ''minidump.dmp'') (wide ''upload_file_minidump'')))
   \<and> EvHttpOpenRequest 2 (wide ''POST'') (wide ''/submit'') 0
       \<in> set (fst (SendRequest (example_os (Some (wide ''200'')))
            (wide ''http://crash.example.com/submit'')
            [(wide ''foo'', wide ''bar'')] (wide ''minidump.dmp'') (wide ''upload_file_minidump'')))"
proof -
  note t = SendRequest_url_scheme [where os = "example_os (Some (wide ''200''))"
      and ps = "[(wide ''foo'', wide ''bar'')]" and f = "wide ''minidump.dmp''"
      and n = "wide ''upload_file_minidump''"]
  have ftp: "wide ''ftp'' \<noteq> wide ''http''" "wide ''ftp'' \<noteq> wide ''https''"
    by (simp_all add: wide_def)
  from t [where url = "wide ''crash.example.com''"]
  have 1: "snd (SendRequest (example_os (Some (wide ''200''))) (wide ''crash.example.com'')
          [(wide ''foo'', wide ''bar'')] (wide ''minidump.dmp'') (wide ''upload_file_minidump''))
     = Some False"
    by (simp add: example_os_urls)
  from t [where url = "wide ''ftp://crash.example.com/submit''"
      and comps = "example_components ''ftp'' 21"] ftp
  have 2: "snd (SendRequest (example_os (Some (wide ''200''))) (wide ''ftp://crash.example.com/submit'')
          [(wide ''foo'', wide ''bar'')] (wide ''minidump.dmp'') (wide ''upload_file_minidump''))
     = Some False"
    by (simp add: example_os_urls example_scheme)
  from t [where url = "wide ''https://crash.example.com/submit''"
      and comps = "example_components ''https'' 443" and internet = 1 and conn = 2]
  have 3: "EvHttpOpenRequest 2 (wide ''POST'') (wide ''/submit'') INTERNET_FLAG_SECURE
       \<in> set (fst (SendRequest (example_os (Some (wide ''200'')))
            (wide ''https://crash.example.com/submit'')
            [(wide ''foo'', wide ''bar'')] (wide ''minidump.dmp'') (wide ''upload_file_minidump'')))"
    by (simp add: example_os_urls example_scheme example_parameters example_os_fields
        example_components_fields del: CheckParameters.simps)
  from t [where url = "wide ''http://crash.example.com/submit''"
      and comps = "example_components ''http'' 80" and internet = 1 and conn = 2]
  have 4: "EvHttpOpenRequest 2 (wide ''POST'') (wide ''/submit'') 0
       \<in> set (fst (SendRequest (example_os (Some (wide ''200'')))
            (wide ''http://crash.example.com/submit'')
            [(wide ''foo'', wide ''bar'')] (wide ''minidump.dmp'') (wide ''upload_file_minidump'')))"
    by (simp add: example_os_urls example_scheme example_parameters example_os_fields
        example_components_fields https_not_http [symmetric] del: CheckParameters.simps)
  from 1 2 3 4 show ?thesis by blast
qed

section \<open>The format of the boundary\<close>

text \<open>
  Claim C7. Whatever the two calls of \<^verbatim>\<open>rand\<close> return, \<^verbatim>\<open>GenerateMultipartBoundary\<close>
  returns (the formatted text always fits the buffer) a string of exactly 43 characters:
  27 dashes, then two groups of 8 upper-case hexadecimal digits, the first rendering the
  first random number and the second the second.
\<close>

theorem GenerateMultipartBoundary_format:
  "\<exists>d0 d1. GenerateMultipartBoundary os = Some (replicate 27 (of_char (CHR ''-'')) @ d0 @ d1)
     \<and> length (replicate 27 (of_char (CHR ''-'') :: wchar_t) @ d0 @ d1) = 43
     \<and> length d0 = 8 \<and> length d1 = 8
     \<and> (\<forall>c\<in>set (d0 @ d1). c \<in> set (wide ''0123456789ABCDEF''))
     \<and> hex_value d0 = unat (rand os 0) \<and> hex_value d1 = unat (rand os 1)"
proof -
  let ?d0 = "format_08X (rand os 0)" and ?d1 = "format_08X (rand os 1)"
  have "GenerateMultipartBoundary os = Some (replicate 27 (of_char (CHR ''-'')) @ ?d0 @ ?d1)"
    by (simp only: GenerateMultipartBoundary_eq kBoundaryPrefix_dashes)
  moreover have "\<forall>c\<in>set (?d0 @ ?d1). c \<in> set (wide ''0123456789ABCDEF'')"
    using format_08X_upper [of "rand os 0"] format_08X_upper [of "rand os 1"] by auto
  ultimately show ?thesis
    using format_08X_length format_08X_value by (intro exI [of _ ?d0] exI [of _ ?d1]) simp
qed

theorem GenerateMultipartBoundary_format_witness:
  "GenerateMultipartBoundary (example_os None) =
     Some (wide ''---------------------------0000002900004823'')
   \<and> length (the (GenerateMultipartBoundary (example_os None))) = 43
   \<and> hex_value (take 8 (drop 27 (the (GenerateMultipartBoundary (example_os None))))) = 41"
proof -
  from GenerateMultipartBoundary_format [of "example_os None"]
  obtain d0 d1 where b: "GenerateMultipartBoundary (example_os None) =
      Some (replicate 27 (of_char (CHR ''-'')) @ d0 @ d1)"
    and len: "length (replicate 27 (of_char (CHR ''-'') :: wchar_t) @ d0 @ d1) = 43" "length d0 = 8"
    and v: "hex_value d0 = unat (rand (example_os None) 0)"
    by blast
  have "GenerateMultipartBoundary (example_os None) =
     Some (wide ''---------------------------0000002900004823'')"
    by (rule GenerateMultipartBoundary_example)
  moreover from b len have "length (the (GenerateMultipartBoundary (example_os None))) = 43"
    by (simp only: option.sel)
  moreover from b len v
  have "hex_value (take 8 (drop 27 (the (GenerateMultipartBoundary (example_os None))))) = 41"
    by (simp add: rand_example)
  ultimately show ?thesis by blast
qed

section \<open>Which empty encodings make the body fail\<close>

text \<open>
  Claim C8. \<^verbatim>\<open>GenerateRequestBody\<close> returns false whenever the file path or the file part
  name encodes to the empty string. A parameter name or value that encodes to the empty
  string causes no failure: when the file is read and the boundary, the file path and the
  part name encode to non-empty strings, the call succeeds for every parameter map, each
  parameter's bytes (none, if its encoding is empty) are appended in its part, and the
  body is the parameter parts followed by the file part and the closing delimiter.
\<close>

theorem GenerateRequestBody_empty_encodings:
  "(WideToUTF8 os upload_file = [] \<or> WideToUTF8 os file_part_name = [] \<longrightarrow>
      fst (GenerateRequestBody os ps upload_file file_part_name boundary old_body) = False)
   \<and> (GetFileContents os upload_file \<noteq> [] \<and> WideToUTF8 os boundary \<noteq> []
        \<and> WideToUTF8 os upload_file \<noteq> [] \<and> WideToUTF8 os file_part_name \<noteq> [] \<longrightarrow>
      GenerateRequestBody os ps upload_file file_part_name boundary old_body =
        (True,
         concat (map (\<lambda>(name, val).
              ''--'' @ WideToUTF8 os boundary @ CRLF @
              ''Content-Disposition: form-data; name='' @ [CHR 0x22] @ WideToUTF8 os name @
              [CHR 0x22] @ CRLF @ CRLF @ WideToUTF8 os val @ CRLF) ps) @
         ''--'' @ WideToUTF8 os boundary @ CRLF @
         ''Content-Disposition: form-data; name='' @ [CHR 0x22] @
         WideToUTF8 os file_part_name @ [CHR 0x22] @
         ''; filename='' @ [CHR 0x22] @ WideToUTF8 os upload_file @ [CHR 0x22] @ CRLF @
         ''Content-Type: application/octet-stream'' @ CRLF @ CRLF @
         GetFileContents os upload_file @ CRLF @
         ''--'' @ WideToUTF8 os boundary @ ''--'' @ CRLF))"
proof (intro conjI impI; (elim conjE)?)
  assume empty: "WideToUTF8 os upload_file = [] \<or> WideToUTF8 os file_part_name = []"
  show "fst (GenerateRequestBody os ps upload_file file_part_name boundary old_body) = False"
  proof (cases "GetFileContents os upload_file = [] \<or> WideToUTF8 os boundary = []")
    case True
    then show ?thesis
      using GenerateRequestBody_no_contents [of os upload_file ps file_part_name boundary old_body]
        GenerateRequestBody_no_boundary [of os boundary ps upload_file file_part_name old_body]
      by auto
  next
    case False
    with empty show ?thesis
      using GenerateRequestBody_no_names [of os upload_file boundary file_part_name ps old_body]
      by auto
  qed
next
  assume ok: "GetFileContents os upload_file \<noteq> []" "WideToUTF8 os boundary \<noteq> []"
    "WideToUTF8 os upload_file \<noteq> []" "WideToUTF8 os file_part_name \<noteq> []"
  have part: "parameter_part os (WideToUTF8 os boundary) =
      (\<lambda>(name, val).
         ''--'' @ WideToUTF8 os boundary @ CRLF @
         ''Content-Disposition: form-data; name='' @ [CHR 0x22] @ WideToUTF8 os name @
         [CHR 0x22] @ CRLF @ CRLF @ WideToUTF8 os val @ CRLF)"
    by (rule ext) (simp add: parameter_part_def split_beta)
  from ok show "GenerateRequestBody os ps upload_file file_part_name boundary old_body =
        (True,
         concat (map (\<lambda>(name, val).
              ''--'' @ WideToUTF8 os boundary @ CRLF @
              ''Content-Disposition: form-data; name='' @ [CHR 0x22] @ WideToUTF8 os name @
              [CHR 0x22] @ CRLF @ CRLF @ WideToUTF8 os val @ CRLF) ps) @
         ''--'' @ WideToUTF8 os boundary @ CRLF @
         ''Content-Disposition: form-data; name='' @ [CHR 0x22] @
         WideToUTF8 os file_part_name @ [CHR 0x22] @
         ''; filename='' @ [CHR 0x22] @ WideToUTF8 os upload_file @ [CHR 0x22] @ CRLF @
         ''Content-Type: application/octet-stream'' @ CRLF @ CRLF @
         GetFileContents os upload_file @ CRLF @
         ''--'' @ WideToUTF8 os boundary @ ''--'' @ CRLF)"
    by (simp add: GenerateRequestBody_success part)
qed

theorem GenerateRequestBody_empty_encodings_witness:
  \<open>GenerateRequestBody (example_os None) [(wide ''foo'', [])] (wide ''minidump.dmp'')
          (wide ''upload_file_minidump'') (wide ''B'') [] =
     (True,
       ''--B'' @ CRLF @ ''Content-Disposition: form-data; name="foo"'' @ CRLF @ CRLF @ CRLF @
       ''--B'' @ CRLF @
       ''Content-Disposition: form-data; name="upload_file_minidump"; filename="minidump.dmp"'' @ CRLF @
       ''Content-Type: application/octet-stream'' @ CRLF @ CRLF @
       ''DATA'' @ CRLF @
       ''--B--'' @ CRLF)
   \<and> fst (GenerateRequestBody (example_os None) [(wide ''foo'', [])] (wide ''minidump.dmp'')
          [] (wide ''B'') []) = False\<close>
proof -
  note t = GenerateRequestBody_empty_encodings [where os = "example_os None"
      and ps = "[(wide ''foo'', [])]" and upload_file = "wide ''minidump.dmp''"
      and boundary = "wide ''B''" and old_body = "[]"]
  from t [where file_part_name = "wide ''upload_file_minidump''"]
  have 1: \<open>GenerateRequestBody (example_os None) [(wide ''foo'', [])] (wide ''minidump.dmp'')
          (wide ''upload_file_minidump'') (wide ''B'') [] =
     (True,
       ''--B'' @ CRLF @ ''Content-Disposition: form-data; name="foo"'' @ CRLF @ CRLF @ CRLF @
       ''--B'' @ CRLF @
       ''Content-Disposition: form-data; name="upload_file_minidump"; filename="minidump.dmp"'' @ CRLF @
       ''Content-Type: application/octet-stream'' @ CRLF @ CRLF @
       ''DATA'' @ CRLF @
       ''--B--'' @ CRLF)\<close>
    by (simp add: example_os_files example_os_utf8 WideToUTF8_empty)
  from t [where file_part_name = "[]"]
  have 2: "fst (GenerateRequestBody (example_os None) [(wide ''foo'', [])] (wide ''minidump.dmp'')
          [] (wide ''B'') []) = False"
    by (simp add: WideToUTF8_empty)
  from 1 2 show ?thesis by blast
qed

section \<open>The result of adding the header\<close>

text \<open>
  Claim C9. \<^verbatim>\<open>SendRequest\<close> never looks at what \<^verbatim>\<open>HttpAddRequestHeaders\<close> returns: replacing
  that capability by any other changes neither the calls made nor the value returned.
  And whenever the header is added, the call goes on to build the body and to send it on
  the same request, whatever adding the header returned.
\<close>

theorem SendRequest_header_result_ignored:
  "SendRequest (os\<lparr>HttpAddRequestHeaders := add_header\<rparr>) url ps f n = SendRequest os url ps f n
   \<and> (EvHttpAddRequestHeaders request header \<in> set (fst (SendRequest os url ps f n)) \<longrightarrow>
        (\<exists>boundary. GenerateMultipartBoundary os = Some boundary
           \<and> header = c_str (GenerateRequestHeader boundary)
           \<and> EvHttpSendRequest request (snd (GenerateRequestBody os ps f n boundary []))
               \<in> set (fst (SendRequest os url ps f n))))"
proof (intro conjI impI)
  show "SendRequest (os\<lparr>HttpAddRequestHeaders := add_header\<rparr>) url ps f n = SendRequest os url ps f n"
    by (simp add: SendRequest_def Let_def cong: option.case_cong if_cong)
next
  assume "EvHttpAddRequestHeaders request header \<in> set (fst (SendRequest os url ps f n))"
  then show "\<exists>boundary. GenerateMultipartBoundary os = Some boundary
           \<and> header = c_str (GenerateRequestHeader boundary)
           \<and> EvHttpSendRequest request (snd (GenerateRequestBody os ps f n boundary []))
               \<in> set (fst (SendRequest os url ps f n))"
    unfolding SendRequest_def Let_def
    by (auto split: if_splits option.splits)
qed

theorem SendRequest_header_result_ignored_witness:
  "HttpAddRequestHeaders (example_os (Some (wide ''200''))) 3
      (c_str (GenerateRequestHeader (wide ''---------------------------0000002900004823''))) = False
   \<and> SendRequest ((example_os (Some (wide ''200'')))\<lparr>HttpAddRequestHeaders := \<lambda>request header. True\<rparr>)
        (wide ''https://crash.example.com/submit'')
        [(wide ''foo'', wide ''bar'')] (wide ''minidump.dmp'') (wide ''upload_file_minidump'')
     = SendRequest (example_os (Some (wide ''200''))) (wide ''https://crash.example.com/submit'')
        [(wide ''foo'', wide ''bar'')] (wide ''minidump.dmp'') (wide ''upload_file_minidump'')
   \<and> EvHttpSendRequest 3
        (snd (GenerateRequestBody (example_os (Some (wide ''200''))) [(wide ''foo'', wide ''bar'')]
               (wide ''minidump.dmp'') (wide ''upload_file_minidump'')
               (wide ''---------------------------0000002900004823'') []))
       \<in> set (fst (SendRequest (example_os (Some (wide ''200'')))
            (wide ''https://crash.example.com/submit'')
            [(wide ''foo'', wide ''bar'')] (wide ''minidump.dmp'') (wide ''upload_file_minidump'')))
   \<and> snd (SendRequest (example_os (Some (wide ''200''))) (wide ''https://crash.example.com/submit'')
        [(wide ''foo'', wide ''bar'')] (wide ''minidump.dmp'') (wide ''upload_file_minidump''))
     = Some True"
proof -
  let ?os = "example_os (Some (wide ''200''))"
  note run = SendRequest_example_https [OF example_parameters refl, of "Some (wide ''200'')"
      "wide ''minidump.dmp''" "wide ''upload_file_minidump''"]
  have added: "EvHttpAddRequestHeaders 3
      (c_str (GenerateRequestHeader (wide ''---------------------------0000002900004823'')))
    \<in> set (fst (SendRequest ?os (wide ''https://crash.example.com/submit'')
          [(wide ''foo'', wide ''bar'')] (wide ''minidump.dmp'') (wide ''upload_file_minidump'')))"
    by (simp add: run)
  note t = SendRequest_header_result_ignored [where os = ?os
      and url = "wide ''https://crash.example.com/submit''"
      and ps = "[(wide ''foo'', wide ''bar'')]" and f = "wide ''minidump.dmp''"
      and n = "wide ''upload_file_minidump''" and add_header = "\<lambda>request header. True"
      and request = 3
      and header = "c_str (GenerateRequestHeader (wide ''---------------------------0000002900004823''))"]
  from t added have "EvHttpSendRequest 3
        (snd (GenerateRequestBody ?os [(wide ''foo'', wide ''bar'')]
               (wide ''minidump.dmp'') (wide ''upload_file_minidump'')
               (wide ''---------------------------0000002900004823'') []))
       \<in> set (fst (SendRequest ?os
            (wide ''https://crash.example.com/submit'')
            [(wide ''foo'', wide ''bar'')] (wide ''minidump.dmp'') (wide ''upload_file_minidump'')))"
    by (simp add: GenerateMultipartBoundary_example)
  moreover from t have "SendRequest (?os\<lparr>HttpAddRequestHeaders := \<lambda>request header. True\<rparr>)
        (wide ''https://crash.example.com/submit'')
        [(wide ''foo'', wide ''bar'')] (wide ''minidump.dmp'') (wide ''upload_file_minidump'')
     = SendRequest ?os (wide ''https://crash.example.com/submit'')
        [(wide ''foo'', wide ''bar'')] (wide ''minidump.dmp'') (wide ''upload_file_minidump'')"
    by blast
  moreover have "snd (SendRequest ?os (wide ''https://crash.example.com/submit'')
        [(wide ''foo'', wide ''bar'')] (wide ''minidump.dmp'') (wide ''upload_file_minidump''))
     = Some True"
    by (simp add: run c_str_literals)
  ultimately show ?thesis
    by (simp add: example_os_fields)
qed

section \<open>What a failure leaves in the output\<close>

text \<open>
  Claim C10. When \<^verbatim>\<open>GenerateRequestBody\<close> returns false because the file contents are empty
  (the file is missing or has length zero) or because the boundary encodes to the empty
  string, the output string is exactly what was passed in. When it returns false later,
  because the file path or the part name encodes to the empty string, the output has been
  cleared and holds the parameter parts: the construction is not atomic.
\<close>

theorem GenerateRequestBody_frame:
  "(GetFileContents os upload_file = [] \<or> WideToUTF8 os boundary = [] \<longrightarrow>
      GenerateRequestBody os ps upload_file file_part_name boundary old_body = (False, old_body))
   \<and> (GetFileContents os upload_file \<noteq> [] \<and> WideToUTF8 os boundary \<noteq> []
        \<and> (WideToUTF8 os upload_file = [] \<or> WideToUTF8 os file_part_name = []) \<longrightarrow>
      GenerateRequestBody os ps upload_file file_part_name boundary old_body =
        (False, concat (map (parameter_part os (WideToUTF8 os boundary)) ps)))"
  using GenerateRequestBody_no_contents GenerateRequestBody_no_boundary
    GenerateRequestBody_no_names
  by blast

theorem GenerateRequestBody_frame_witness:
  \<open>GenerateRequestBody (example_os None) [(wide ''foo'', wide ''bar'')] (wide ''missing.dmp'')
     (wide ''upload_file_minidump'') (wide ''B'') ''old'' = (False, ''old'')
   \<and> GenerateRequestBody (example_os None) [(wide ''foo'', wide ''bar'')] (wide ''empty.dmp'')
     (wide ''upload_file_minidump'') (wide ''B'') ''old'' = (False, ''old'')
   \<and> GenerateRequestBody (example_os None) [(wide ''foo'', wide ''bar'')] (wide ''minidump.dmp'')
     (wide ''upload_file_minidump'') [] ''old'' = (False, ''old'')
   \<and> GenerateRequestBody (example_os None) [(wide ''foo'', wide ''bar'')] (wide ''minidump.dmp'')
     [] (wide ''B'') ''old'' =
       (False, ''--B'' @ CRLF @ ''Content-Disposition: form-data; name="foo"'' @ CRLF @ CRLF @
               ''bar'' @ CRLF)\<close>
proof -
  note t = GenerateRequestBody_frame [where os = "example_os None"
      and ps = "[(wide ''foo'', wide ''bar'')]" and old_body = "''old''"]
  from t [where upload_file = "wide ''missing.dmp''" and boundary = "wide ''B''"
      and file_part_name = "wide ''upload_file_minidump''"]
  have 1: "GenerateRequestBody (example_os None) [(wide ''foo'', wide ''bar'')] (wide ''missing.dmp'')
     (wide ''upload_file_minidump'') (wide ''B'') ''old'' = (False, ''old'')"
    by (simp add: example_os_files)
  from t [where upload_file = "wide ''empty.dmp''" and boundary = "wide ''B''"
      and file_part_name = "wide ''upload_file_minidump''"]
  have 2: "GenerateRequestBody (example_os None) [(wide ''foo'', wide ''bar'')] (wide ''empty.dmp'')
     (wide ''upload_file_minidump'') (wide ''B'') ''old'' = (False, ''old'')"
    by (simp add: example_os_files)
  from t [where upload_file = "wide ''minidump.dmp''" and boundary = "[]"
      and file_part_name = "wide ''upload_file_minidump''"]
  have 3: "GenerateRequestBody (example_os None) [(wide ''foo'', wide ''bar'')] (wide ''minidump.dmp'')
     (wide ''upload_file_minidump'') [] ''old'' = (False, ''old'')"
    by (simp add: WideToUTF8_empty)
  from t [where upload_file = "wide ''minidump.dmp''" and boundary = "wide ''B''"
      and file_part_name = "[]"]
  have 4: \<open>GenerateRequestBody (example_os None) [(wide ''foo'', wide ''bar'')] (wide ''minidump.dmp'')
     [] (wide ''B'') ''old'' =
       (False, ''--B'' @ CRLF @ ''Content-Disposition: form-data; name="foo"'' @ CRLF @ CRLF @
               ''bar'' @ CRLF)\<close>
    by (simp add: example_os_files example_os_utf8 WideToUTF8_empty parameter_part_def)
  from 1 2 3 4 show ?thesis by blast
qed

end
